theory Spec2Isabelle
  imports Complex_Main
begin

section \<open>Numbers and strings of the runtime\<close>

text \<open>
  The service computes with JavaScript numbers. They are embedded as exact rationals:
  every literal of the source (\<open>0.25\<close>, \<open>1.2\<close>, \<open>0.8\<close>, \<open>1.045\<close>, \<open>0.95\<close>, ...) is the
  decimal fraction it is written as, and \<open>*\<close>, \<open>/\<close>, \<open>Math.pow\<close> are the exact operations.
  The rounding error of binary floating point is not part of the model. The properties
  below about \<open>min\<close> and \<open>max\<close> do not depend on it; the concrete runs are at inputs
  whose unrounded amounts are far from a rounding tie.
  The integer fields of a profile (the route validator admits integers only) are \<open>int\<close>
  and enter the arithmetic through \<open>of_int\<close>.
\<close>

text \<open>\<open>Math.round\<close>: the nearest integer, a tie going up.\<close>

definition Math_round :: "rat \<Rightarrow> rat" where
  "Math_round x = of_int \<lfloor>x + 1 / 2\<rfloor>"

text \<open>\<open>Math.pow\<close> at an integer exponent, which may be negative.\<close>

definition Math_pow :: "rat \<Rightarrow> int \<Rightarrow> rat" where
  "Math_pow b e = power_int b e"

definition digit_char :: "nat \<Rightarrow> char" where
  "digit_char d = ''0123456789'' ! d"

fun nat_digits :: "nat \<Rightarrow> string" where
  "nat_digits n = (if n < 10 then [digit_char n]
                   else nat_digits (n div 10) @ [digit_char (n mod 10)])"

declare nat_digits.simps [simp del]

text \<open>The text a template literal puts for an integer number: decimal digits, with a sign.\<close>

definition Number_toString :: "int \<Rightarrow> string" where
  "Number_toString i = (if i < 0 then ''-'' @ nat_digits (nat (- i)) else nat_digits (nat i))"

text \<open>
  \<open>x.toFixed(0)\<close>: the sign is split off, then the nearest integer is printed, a tie
  taking the larger one.
\<close>

definition toFixed0 :: "rat \<Rightarrow> string" where
  "toFixed0 x = (if x < 0 then ''-'' @ nat_digits (nat \<lfloor>- x + 1 / 2\<rfloor>)
                 else nat_digits (nat \<lfloor>x + 1 / 2\<rfloor>))"

text \<open>\<open>Array.prototype.join(' ')\<close>.\<close>

fun join_space :: "string list \<Rightarrow> string" where
  "join_space [] = []"
| "join_space [s] = s"
| "join_space (s # t # ss) = s @ '' '' @ join_space (t # ss)"

section \<open>Data model\<close>

datatype RiskTolerance = low | medium | high

record UserProfile =
  age :: int
  income :: int
  dependents :: int
  riskTolerance :: RiskTolerance

text \<open>
  The fields \<open>type\<close> and \<open>term\<close> of the source's \<open>Recommendation\<close> are \<open>type_name\<close> and
  \<open>term_years\<close> here.
\<close>

record Recommendation =
  type_name :: string
  coverage :: rat
  term_years :: int
  monthlyPremium :: rat

record Factors =
  incomeMultiplier :: int
  dependentsFactor :: rat
  riskAdjustment :: rat

record RecommendationResponse =
  recommendation :: Recommendation
  explanation :: string
  factors :: Factors

record PremiumFactors =
  basePremiumRate :: rat
  ageFactor :: rat
  termFactor :: rat
  typeFactor :: rat
  healthFactor :: rat

text \<open>What the route validator lets through to the service.\<close>

definition valid_profile :: "UserProfile \<Rightarrow> bool" where
  "valid_profile p \<longleftrightarrow> 18 \<le> age p \<and> age p \<le> 100 \<and> 0 \<le> income p \<and> 0 \<le> dependents p"

section \<open>The logger\<close>

text \<open>
  \<open>logger.info(message, meta)\<close> is the only effect of the service. The log is a list of
  entries that every call extends and hands back.
\<close>

datatype LogMeta =
    NoMeta
  | ProfileMeta UserProfile
  | ResultMeta string rat int rat

type_synonym Logger = "(string \<times> LogMeta) list"

definition logger_info :: "string \<Rightarrow> LogMeta \<Rightarrow> Logger \<Rightarrow> Logger" where
  "logger_info msg meta lg = lg @ [(msg, meta)]"

section \<open>RecommendationService\<close>

subsection \<open>Constants\<close>

definition BASE_MULTIPLIERS_young :: int where "BASE_MULTIPLIERS_young = 15"
definition BASE_MULTIPLIERS_midAge :: int where "BASE_MULTIPLIERS_midAge = 12"
definition BASE_MULTIPLIERS_mature :: int where "BASE_MULTIPLIERS_mature = 10"
definition BASE_MULTIPLIERS_senior :: int where "BASE_MULTIPLIERS_senior = 8"

fun RISK_ADJUSTMENTS :: "RiskTolerance \<Rightarrow> rat" where
  "RISK_ADJUSTMENTS low = 12 / 10"
| "RISK_ADJUSTMENTS medium = 1"
| "RISK_ADJUSTMENTS high = 8 / 10"

definition DEPENDENT_MULTIPLIER :: rat where "DEPENDENT_MULTIPLIER = 25 / 100"
definition MIN_COVERAGE :: rat where "MIN_COVERAGE = 100000"
definition INCOME_CAP_MULTIPLIER :: rat where "INCOME_CAP_MULTIPLIER = 30"

subsection \<open>Coverage, term and policy type\<close>

definition getIncomeMultiplier :: "int \<Rightarrow> int" where
  "getIncomeMultiplier a =
     (if a < 30 then BASE_MULTIPLIERS_young
      else if a < 40 then BASE_MULTIPLIERS_midAge
      else if a < 50 then BASE_MULTIPLIERS_mature
      else BASE_MULTIPLIERS_senior)"

definition calculateCoverage :: "rat \<Rightarrow> rat \<Rightarrow> rat \<Rightarrow> rat \<Rightarrow> rat" where
  "calculateCoverage inc mult depF riskAdj =
     (let cov0 = inc * mult * depF * riskAdj;
          cov1 = Math_round (cov0 / 10000) * 10000;
          cov2 = max cov1 MIN_COVERAGE;
          maxCoverage = inc * INCOME_CAP_MULTIPLIER
      in min cov2 maxCoverage)"

definition determineTerm :: "int \<Rightarrow> int" where
  "determineTerm a =
     (if a < 35 then 30
      else if a < 45 then 20
      else if a < 55 then 15
      else 10)"

definition determineInsuranceType :: "UserProfile \<Rightarrow> string" where
  "determineInsuranceType profile =
     (if riskTolerance profile = low \<and> income profile > 150000 then ''Whole Life''
      else if riskTolerance profile = medium \<and> income profile > 200000 \<and> age profile < 50
        then ''Universal Life''
      else ''Term Life'')"

subsection \<open>Premium\<close>

definition getPremiumFactors :: "int \<Rightarrow> int \<Rightarrow> string \<Rightarrow> PremiumFactors" where
  "getPremiumFactors a trm ty =
     \<lparr> basePremiumRate = 5 / 10,
       ageFactor = Math_pow (1045 / 1000) (a - 25),
       termFactor =
         (if trm = 10 then 12 / 10
          else if trm = 15 then 11 / 10
          else if trm = 20 then 1
          else if trm = 30 then 9 / 10
          else 1),
       typeFactor =
         (if ty = ''Term Life'' then 1
          else if ty = ''Whole Life'' then 35 / 10
          else if ty = ''Universal Life'' then 25 / 10
          else 1),
       healthFactor = 1 \<rparr>"

definition calculatePremium :: "int \<Rightarrow> rat \<Rightarrow> int \<Rightarrow> string \<Rightarrow> RiskTolerance \<Rightarrow> rat" where
  "calculatePremium a cov trm ty risk =
     (let fs = getPremiumFactors a trm ty;
          coverageUnits = cov / 1000;
          p0 = coverageUnits * basePremiumRate fs;
          p1 = p0 * ageFactor fs;
          p2 = p1 * termFactor fs;
          p3 = p2 * typeFactor fs;
          p4 = p3 * healthFactor fs;
          p5 = (if risk = high then p4 * (95 / 100)
                else if risk = low then p4 * (105 / 100)
                else p4)
      in Math_round p5)"

subsection \<open>Explanation\<close>

text \<open>
  \<open>toLocaleString\<close> formats by the locale of the running process; it is a parameter of
  the model. The other numbers are printed by the template literal or by \<open>toFixed(0)\<close>.
\<close>

definition age_sentence :: "UserProfile \<Rightarrow> int \<Rightarrow> string" where
  "age_sentence profile trm =
     (if age profile < 35 then
        ''At '' @ Number_toString (age profile)
          @ '' years old, you're in a prime age for securing affordable life insurance. ''
          @ ''We recommend a '' @ Number_toString trm
          @ ''-year term to provide coverage through your key earning years.''
      else if age profile < 50 then
        ''At '' @ Number_toString (age profile)
          @ '' years old, life insurance is crucial for protecting your family's financial future. ''
          @ ''A '' @ Number_toString trm
          @ ''-year term aligns well with your remaining working years.''
      else
        ''At '' @ Number_toString (age profile) @ '' years old, a '' @ Number_toString trm
          @ ''-year term provides essential coverage ''
          @ ''while keeping premiums manageable as you approach retirement.'')"

definition income_sentence :: "(rat \<Rightarrow> string) \<Rightarrow> UserProfile \<Rightarrow> Factors \<Rightarrow> string" where
  "income_sentence toLocaleString profile fs =
     ''Based on your annual income of $'' @ toLocaleString (of_int (income profile)) @ '', ''
       @ ''we applied a '' @ Number_toString (incomeMultiplier fs)
       @ ''x multiplier. This ensures your loved ones ''
       @ ''can maintain their current lifestyle and meet long-term financial obligations.''"

definition dependents_sentence :: "UserProfile \<Rightarrow> Factors \<Rightarrow> string" where
  "dependents_sentence profile fs =
     (if dependents profile > 0 then
        (let dependentText = (if dependents profile = 1 then ''dependent'' else ''dependents'')
         in ''With '' @ Number_toString (dependents profile) @ '' '' @ dependentText
              @ '', we've increased your coverage by ''
              @ toFixed0 ((dependentsFactor fs - 1) * 100)
              @ ''% to account for education costs, ''
              @ ''childcare, and other family expenses.'')
      else
        ''While you have no dependents, life insurance can still cover final expenses, ''
          @ ''outstanding debts, and provide for any future family plans.'')"

fun riskExplanations :: "RiskTolerance \<Rightarrow> string" where
  "riskExplanations low =
     ''Your conservative risk preference indicates a focus on maximum protection. ''
       @ ''We've adjusted your coverage upward to provide additional security.''"
| "riskExplanations medium =
     ''Your balanced risk tolerance allows for a standard coverage approach ''
       @ ''that provides solid protection without over-insuring.''"
| "riskExplanations high =
     ''Your higher risk tolerance suggests you may have other investments in place. ''
       @ ''We've recommended efficient coverage that complements your overall financial strategy.''"

definition type_sentence :: "string \<Rightarrow> string" where
  "type_sentence ty =
     (if ty = ''Whole Life'' then
        ''Given your income level and conservative approach, whole life insurance provides ''
          @ ''permanent coverage with a cash value component that grows tax-deferred over time.''
      else if ty = ''Universal Life'' then
        ''Universal life insurance offers flexibility in premiums and death benefits, ''
          @ ''along with a cash value component that can supplement your retirement planning.''
      else
        ''Term life insurance provides the most affordable way to secure maximum coverage ''
          @ ''during your working years when your family needs it most.'')"

definition coverage_sentence :: "(rat \<Rightarrow> string) \<Rightarrow> rat \<Rightarrow> string" where
  "coverage_sentence toLocaleString cov =
     ''The recommended coverage of $'' @ toLocaleString cov
       @ '' represents a careful balance ''
       @ ''of your income replacement needs, family obligations, and premium affordability.''"

definition generateExplanation ::
  "(rat \<Rightarrow> string) \<Rightarrow> UserProfile \<Rightarrow> rat \<Rightarrow> int \<Rightarrow> string \<Rightarrow> Factors \<Rightarrow> string" where
  "generateExplanation toLocaleString profile cov trm ty fs =
     join_space
       [age_sentence profile trm,
        income_sentence toLocaleString profile fs,
        dependents_sentence profile fs,
        riskExplanations (riskTolerance profile),
        type_sentence ty,
        coverage_sentence toLocaleString cov]"

subsection \<open>The public methods\<close>

definition calculateRecommendation ::
  "(rat \<Rightarrow> string) \<Rightarrow> UserProfile \<Rightarrow> Logger \<Rightarrow> RecommendationResponse \<times> Logger" where
  "calculateRecommendation toLocaleString profile lg =
     (let lg1 = logger_info ''Calculating recommendation for profile'' (ProfileMeta profile) lg;
          incomeMult = getIncomeMultiplier (age profile);
          depF = 1 + of_int (dependents profile) * DEPENDENT_MULTIPLIER;
          riskAdj = RISK_ADJUSTMENTS (riskTolerance profile);
          cov = calculateCoverage (of_int (income profile)) (of_int incomeMult) depF riskAdj;
          trm = determineTerm (age profile);
          insuranceType = determineInsuranceType profile;
          prem = calculatePremium (age profile) cov trm insuranceType (riskTolerance profile);
          fs = \<lparr> incomeMultiplier = incomeMult, dependentsFactor = depF,
                 riskAdjustment = riskAdj \<rparr>;
          expl = generateExplanation toLocaleString profile cov trm insuranceType fs;
          lg2 = logger_info ''Recommendation calculated''
                  (ResultMeta insuranceType cov trm prem) lg1
      in (\<lparr> recommendation =
              \<lparr> type_name = insuranceType, coverage = cov, term_years = trm,
                monthlyPremium = prem \<rparr>,
            explanation = expl,
            factors = fs \<rparr>, lg2))"

text \<open>The promise of the asynchronous method is modelled by the value it resolves to.\<close>

definition getMLRecommendation ::
  "(rat \<Rightarrow> string) \<Rightarrow> UserProfile \<Rightarrow> Logger \<Rightarrow> RecommendationResponse \<times> Logger" where
  "getMLRecommendation toLocaleString profile lg =
     calculateRecommendation toLocaleString profile
       (logger_info ''ML recommendation requested - falling back to rules-based system''
          NoMeta lg)"

definition adjustForHealthFactors :: "RecommendationResponse \<Rightarrow> 'h \<Rightarrow> RecommendationResponse" where
  "adjustForHealthFactors recommendation_in healthData = recommendation_in"

subsection \<open>One locale for the concrete runs\<close>

text \<open>
  The \<open>en-US\<close> instance of \<open>toLocaleString\<close>: at most three fraction digits, trailing
  zeros dropped, the integer part grouped in thousands.
\<close>

definition pad3 :: "nat \<Rightarrow> string" where
  "pad3 k = [digit_char (k div 100), digit_char (k div 10 mod 10), digit_char (k mod 10)]"

fun group_thousands :: "nat \<Rightarrow> string" where
  "group_thousands n = (if n < 1000 then nat_digits n
                        else group_thousands (n div 1000) @ '','' @ pad3 (n mod 1000))"

declare group_thousands.simps [simp del]

definition strip_zeros :: "string \<Rightarrow> string" where
  "strip_zeros s = rev (dropWhile (\<lambda>c. c = CHR ''0'') (rev s))"

definition toLocaleString_en_US :: "rat \<Rightarrow> string" where
  "toLocaleString_en_US x =
     (let m = nat \<lfloor>\<bar>x\<bar> * 1000 + 1 / 2\<rfloor>;
          frac = strip_zeros (pad3 (m mod 1000))
      in (if x < 0 then ''-'' else '''') @ group_thousands (m div 1000)
           @ (if frac = [] then [] else ''.'' @ frac))"

subsection \<open>Predicates and inputs of the properties\<close>


text \<open>The profile of the first concrete scenario.\<close>

definition scenario_one :: UserProfile where
  "scenario_one = \<lparr> age = 35, income = 75000, dependents = 2, riskTolerance = medium \<rparr>"

section \<open>What a call returns, field by field\<close>

lemma coverage_result:
  "coverage (recommendation (fst (calculateRecommendation f p lg))) =
     calculateCoverage (of_int (income p)) (of_int (getIncomeMultiplier (age p)))
       (1 + of_int (dependents p) * DEPENDENT_MULTIPLIER) (RISK_ADJUSTMENTS (riskTolerance p))"
  by (simp add: calculateRecommendation_def Let_def)

lemma term_result:
  "term_years (recommendation (fst (calculateRecommendation f p lg))) = determineTerm (age p)"
  by (simp add: calculateRecommendation_def Let_def)

lemma type_result:
  "type_name (recommendation (fst (calculateRecommendation f p lg))) = determineInsuranceType p"
  by (simp add: calculateRecommendation_def Let_def)

lemma premium_result:
  "monthlyPremium (recommendation (fst (calculateRecommendation f p lg))) =
     calculatePremium (age p)
       (coverage (recommendation (fst (calculateRecommendation f p lg))))
       (determineTerm (age p)) (determineInsuranceType p) (riskTolerance p)"
  by (simp add: calculateRecommendation_def Let_def)

lemma factors_result:
  "incomeMultiplier (factors (fst (calculateRecommendation f p lg))) = getIncomeMultiplier (age p)"
  "dependentsFactor (factors (fst (calculateRecommendation f p lg))) =
     1 + of_int (dependents p) * DEPENDENT_MULTIPLIER"
  "riskAdjustment (factors (fst (calculateRecommendation f p lg))) =
     RISK_ADJUSTMENTS (riskTolerance p)"
  by (simp_all add: calculateRecommendation_def Let_def)

text \<open>The result of a call does not look at the log it is given; the log only grows.\<close>

lemma result_ignores_log:
  "fst (calculateRecommendation f p lg) = fst (calculateRecommendation f p lg')"
  by (simp add: calculateRecommendation_def Let_def)

lemma log_grows:
  "\<exists>es. snd (calculateRecommendation f p lg) = lg @ es \<and> length es = 2"
  by (simp add: calculateRecommendation_def Let_def logger_info_def)

section \<open>Arithmetic of the stages\<close>



lemma coverage_shape:
  "calculateCoverage inc mult depF riskAdj =
     min (max (Math_round (inc * mult * depF * riskAdj / 10000) * 10000) 100000) (inc * 30)"
  by (simp add: calculateCoverage_def Let_def MIN_COVERAGE_def INCOME_CAP_MULTIPLIER_def)

lemma cap_as_rat:
  "income p * 30 < 100000 \<longleftrightarrow> rat_of_int (income p) * 30 < 100000"
  "100000 \<le> income p * 30 \<longleftrightarrow> 100000 \<le> rat_of_int (income p) * 30"
proof -
  have "rat_of_int (income p * 30) < rat_of_int 100000 \<longleftrightarrow> income p * 30 < 100000"
    by (simp only: of_int_less_iff)
  then show "income p * 30 < 100000 \<longleftrightarrow> rat_of_int (income p) * 30 < 100000" by simp
  have "rat_of_int 100000 \<le> rat_of_int (income p * 30) \<longleftrightarrow> 100000 \<le> income p * 30"
    by (simp only: of_int_le_iff)
  then show "100000 \<le> income p * 30 \<longleftrightarrow> 100000 \<le> rat_of_int (income p) * 30" by simp
qed

lemma premium_shape:
  "calculatePremium a cov trm ty risk =
     Math_round (cov / 1000 * (1 / 2) * ageFactor (getPremiumFactors a trm ty)
        * termFactor (getPremiumFactors a trm ty) * typeFactor (getPremiumFactors a trm ty)
        * (case risk of high \<Rightarrow> 95 / 100 | low \<Rightarrow> 105 / 100 | medium \<Rightarrow> 1))"
  by (cases risk) (simp_all add: calculatePremium_def Let_def getPremiumFactors_def)

lemma ageFactor_lower:
  assumes "18 \<le> a"
  shows "7 / 10 \<le> Math_pow (1045 / 1000) (a - 25)"
proof -
  have "(1045 / 1000 :: rat) powi (- 7) \<le> (1045 / 1000) powi (a - 25)"
    using assms by (intro power_int_increasing) simp_all
  moreover have "(7 / 10 :: rat) \<le> (1045 / 1000) powi (- 7)"
    by (simp add: power_int_minus field_simps)
  ultimately show ?thesis by (simp add: Math_pow_def)
qed

lemma termFactor_lower: "9 / 10 \<le> termFactor (getPremiumFactors a trm ty)"
  by (simp add: getPremiumFactors_def)

lemma typeFactor_lower: "1 \<le> typeFactor (getPremiumFactors a trm ty)"
  by (simp add: getPremiumFactors_def)

lemma mult_lower:
  fixes x y l1 l2 :: rat
  assumes "l1 \<le> x" and "l2 \<le> y" and "0 \<le> l1" and "0 \<le> l2"
  shows "l1 * l2 \<le> x * y"
  using assms by (intro mult_mono) auto

text \<open>
  From the floor of 100000 upwards the premium is at least 1 for every adult age: the
  unrounded amount is at least \<open>50 \<times> 0.7 \<times> 0.9 \<times> 0.95\<close>.
\<close>

lemma premium_positive_from_floor:
  assumes a: "18 \<le> a" and c: "100000 \<le> cov"
  shows "1 \<le> calculatePremium a cov trm ty risk"
proof -
  let ?A = "ageFactor (getPremiumFactors a trm ty)"
  let ?T = "termFactor (getPremiumFactors a trm ty)"
  let ?Y = "typeFactor (getPremiumFactors a trm ty)"
  let ?R = "(case risk of high \<Rightarrow> 95 / 100 | low \<Rightarrow> 105 / 100 | medium \<Rightarrow> (1::rat))"
  have A: "7 / 10 \<le> ?A" using ageFactor_lower [OF a] by (simp add: getPremiumFactors_def)
  have T: "9 / 10 \<le> ?T" by (rule termFactor_lower)
  have Y: "1 \<le> ?Y" by (rule typeFactor_lower)
  have R: "95 / 100 \<le> ?R" by (cases risk) simp_all
  have u: "50 \<le> cov / 1000 * (1 / 2)" using c by simp
  have s1: "50 * (7 / 10) \<le> cov / 1000 * (1 / 2) * ?A"
    by (rule mult_lower [OF u A]) simp_all
  have s2: "50 * (7 / 10) * (9 / 10) \<le> cov / 1000 * (1 / 2) * ?A * ?T"
    by (rule mult_lower [OF s1 T]) simp_all
  have s3: "50 * (7 / 10) * (9 / 10) * 1 \<le> cov / 1000 * (1 / 2) * ?A * ?T * ?Y"
    by (rule mult_lower [OF s2 Y]) simp_all
  have s4: "50 * (7 / 10) * (9 / 10) * 1 * (95 / 100) \<le> cov / 1000 * (1 / 2) * ?A * ?T * ?Y * ?R"
    by (rule mult_lower [OF s3 R]) simp_all
  then have "1 \<le> cov / 1000 * (1 / 2) * ?A * ?T * ?Y * ?R + 1 / 2" by simp
  then have "1 \<le> \<lfloor>cov / 1000 * (1 / 2) * ?A * ?T * ?Y * ?R + 1 / 2\<rfloor>"
    by (simp only: one_le_floor)
  then show ?thesis
    by (simp only: premium_shape Math_round_def)
qed

text \<open>
  The same through the whole engine: where the cap \<open>income \<times> 30\<close> leaves the floor
  standing, the premium of a valid profile is an integer and at least 1.
\<close>

lemma premium_positive_when_cap_allows:
  assumes "valid_profile p" and "100000 \<le> income p * 30"
  shows "1 \<le> monthlyPremium (recommendation (fst (calculateRecommendation f p lg)))"
proof -
  from assms(2) have "100000 \<le> rat_of_int (income p) * 30" by (simp only: cap_as_rat)
  then have "100000 \<le> coverage (recommendation (fst (calculateRecommendation f p lg)))"
    by (simp add: coverage_result coverage_shape)
  moreover from assms(1) have "18 \<le> age p" by (simp add: valid_profile_def)
  ultimately show ?thesis
    by (simp only: premium_result premium_positive_from_floor)
qed

lemma premium_integer:
  "monthlyPremium (recommendation (fst (calculateRecommendation f p lg))) \<in> \<int>"
  by (simp add: premium_result premium_shape Math_round_def)

text \<open>The stages at the concrete inputs used below.\<close>

lemma coverage_scenario_one: "calculateCoverage 75000 12 (15 / 10) 1 = 1350000"
  by code_simp

lemma premium_scenario_one: "calculatePremium 35 1350000 20 ''Term Life'' medium = 1048"
  by code_simp

lemma round_scenario_one: "Math_round (1350 * (5 / 10) * Math_pow (1045 / 1000) 10) = 1048"
  by code_simp

text \<open>
  The unrounded premium of the first scenario is about 1048.25: any computation of it that
  is off by at most 0.2 rounds to the same 1048.
\<close>

lemma round_scenario_one_margin:
  assumes "\<bar>e\<bar> \<le> 1 / 5"
  shows "Math_round (1350 * (5 / 10) * Math_pow (1045 / 1000) 10 + e) = 1048"
proof -
  define v :: rat where "v = 1350 * (5 / 10) * Math_pow (1045 / 1000) 10"
  have lo: "10482 / 10 \<le> v" and hi: "v \<le> 104826 / 100"
    by (simp_all add: v_def Math_pow_def power_divide)
  from assms have "- (1 / 5) \<le> e" and "e \<le> 1 / 5" by (simp_all add: abs_le_iff)
  with lo hi have "rat_of_int 1048 \<le> v + e + 1 / 2" and "v + e + 1 / 2 < rat_of_int 1048 + 1"
    by simp_all
  then have "\<lfloor>v + e + 1 / 2\<rfloor> = 1048"
    by (simp only: floor_eq_iff)
  then show ?thesis by (simp only: Math_round_def v_def)
qed

lemma coverage_income_0: "calculateCoverage 0 15 1 1 = 0"
  by code_simp

lemma coverage_income_1: "calculateCoverage 1 15 1 1 = 30"
  by code_simp

lemma coverage_income_1000: "calculateCoverage 1000 15 1 1 = 30000"
  by code_simp



lemma premium_coverage_30: "calculatePremium 25 30 30 ''Term Life'' medium = 0"
  by code_simp



section \<open>Age bands\<close>

text \<open>
  C2. For every age in [18,100] the income multiplier is 15 below 30, 12 from 30 to 39,
  10 from 40 to 49 and 8 from 50 on; the term is 30 years below 35, 20 from 35 to 44,
  15 from 45 to 54 and 10 from 55 on. The term is therefore one of 10, 15, 20, 30, and an
  older age in the range never gets a longer term.
\<close>

theorem age_bands:
  assumes "18 \<le> a" and "a \<le> 100" and "a \<le> b" and "b \<le> 100"
  shows "getIncomeMultiplier a =
           (if a < 30 then 15 else if a < 40 then 12 else if a < 50 then 10 else 8)
         \<and> determineTerm a =
           (if a < 35 then 30 else if a < 45 then 20 else if a < 55 then 15 else 10)
         \<and> determineTerm a \<in> {10, 15, 20, 30}
         \<and> determineTerm b \<le> determineTerm a"
  using assms
  by (simp add: getIncomeMultiplier_def determineTerm_def BASE_MULTIPLIERS_young_def
      BASE_MULTIPLIERS_midAge_def BASE_MULTIPLIERS_mature_def BASE_MULTIPLIERS_senior_def)

theorem age_bands_witness:
  "(18::int) \<le> 34 \<and> (34::int) \<le> 100 \<and> (34::int) \<le> 35 \<and> (35::int) \<le> 100
   \<and> getIncomeMultiplier 34 = 12 \<and> determineTerm 34 = 30
   \<and> determineTerm 34 \<in> {10, 15, 20, 30} \<and> determineTerm 35 \<le> determineTerm 34"
  using age_bands [of 34 35] by simp

section \<open>Policy type\<close>

text \<open>
  C3. The policy type of a valid profile is decided by the first rule that matches:
  Whole Life for low risk tolerance with income above 150000; otherwise Universal Life for
  medium risk tolerance with income above 200000 and age below 50; otherwise Term Life.
  A profile with low risk tolerance and income 200000 is Whole Life.
\<close>

theorem policy_type_first_match:
  assumes "valid_profile p"
  shows "type_name (recommendation (fst (calculateRecommendation f p lg))) =
           (if riskTolerance p = low \<and> income p > 150000 then ''Whole Life''
            else if riskTolerance p = medium \<and> income p > 200000 \<and> age p < 50
              then ''Universal Life''
            else ''Term Life'')
         \<and> (riskTolerance p = low \<and> income p = 200000 \<longrightarrow>
              type_name (recommendation (fst (calculateRecommendation f p lg))) = ''Whole Life'')"
  by (simp add: type_result determineInsuranceType_def)

theorem policy_type_first_match_witness:
  "valid_profile \<lparr> age = 45, income = 200000, dependents = 0, riskTolerance = low \<rparr>
   \<and> type_name (recommendation (fst (calculateRecommendation toLocaleString_en_US
         \<lparr> age = 45, income = 200000, dependents = 0, riskTolerance = low \<rparr> []))) = ''Whole Life''"
  using policy_type_first_match
    [of "\<lparr> age = 45, income = 200000, dependents = 0, riskTolerance = low \<rparr>"
       toLocaleString_en_US "[]"]
  by (simp add: valid_profile_def)

section \<open>Determinism and the pass-through methods\<close>


text \<open>
  C9. \<open>getMLRecommendation\<close> resolves to exactly the response that
  \<open>calculateRecommendation\<close> returns for the same profile.
\<close>

theorem ml_is_pass_through:
  "fst (getMLRecommendation f p lg) = fst (calculateRecommendation f p lg)"
  unfolding getMLRecommendation_def by (rule result_ignores_log)

text \<open>
  C10. Health data has no influence: \<open>adjustForHealthFactors\<close> returns the recommendation
  it is given, whatever the health data, and the health factor of the premium is 1 for
  every age, term and type.
\<close>

theorem health_data_ignored:
  "adjustForHealthFactors r h = r \<and> healthFactor (getPremiumFactors a trm ty) = 1"
  by (simp add: adjustForHealthFactors_def getPremiumFactors_def)

section \<open>Coverage sizing\<close>



text \<open>
  C5, as stated: the coverage of every valid profile is at least 100000. It is not: the
  profile age 25, income 0, no dependents, medium risk tolerance is valid and its
  coverage is 0, the cap \<open>0 \<times> 30\<close>.
\<close>

theorem coverage_floor_counterexample:
  "\<not> 100000 \<le> coverage (recommendation (fst (calculateRecommendation toLocaleString_en_US
       \<lparr> age = 25, income = 0, dependents = 0, riskTolerance = medium \<rparr> [])))"
  by (simp add: coverage_result getIncomeMultiplier_def BASE_MULTIPLIERS_young_def
      DEPENDENT_MULTIPLIER_def coverage_income_0)

text \<open>
  C5, amended: for every valid profile whose cap \<open>income \<times> 30\<close> is at least 100000, the
  coverage is at least 100000.
\<close>

theorem coverage_floor_when_cap_allows:
  assumes "valid_profile p" and "100000 \<le> income p * 30"
  shows "100000 \<le> coverage (recommendation (fst (calculateRecommendation f p lg)))"
proof -
  from assms(2) have "100000 \<le> rat_of_int (income p) * 30" by (simp only: cap_as_rat)
  then show ?thesis by (simp add: coverage_result coverage_shape)
qed

theorem coverage_floor_when_cap_allows_witness:
  "valid_profile \<lparr> age = 25, income = 50000, dependents = 0, riskTolerance = medium \<rparr>
   \<and> (100000::int) \<le> 50000 * 30
   \<and> (100000::rat) \<le> coverage (recommendation (fst (calculateRecommendation toLocaleString_en_US
         \<lparr> age = 25, income = 50000, dependents = 0, riskTolerance = medium \<rparr> [])))"
  using coverage_floor_when_cap_allows
    [of "\<lparr> age = 25, income = 50000, dependents = 0, riskTolerance = medium \<rparr>"
       toLocaleString_en_US "[]"]
  by (simp add: valid_profile_def)




section \<open>The first scenario, end to end\<close>

text \<open>
  C4. For age 35, income 75000, 2 dependents and medium risk tolerance the engine returns
  incomeMultiplier 12, dependentsFactor 1.5, riskAdjustment 1.0, coverage 1350000, term
  20, type Term Life and monthlyPremium 1048, which is the rounding of
  \<open>1350 \<times> 0.5 \<times> 1.045\<^sup>1\<^sup>0\<close>.
\<close>

theorem scenario_one_result:
  "incomeMultiplier (factors (fst (calculateRecommendation f scenario_one lg))) = 12
   \<and> dependentsFactor (factors (fst (calculateRecommendation f scenario_one lg))) = 15 / 10
   \<and> riskAdjustment (factors (fst (calculateRecommendation f scenario_one lg))) = 1
   \<and> coverage (recommendation (fst (calculateRecommendation f scenario_one lg))) = 1350000
   \<and> term_years (recommendation (fst (calculateRecommendation f scenario_one lg))) = 20
   \<and> type_name (recommendation (fst (calculateRecommendation f scenario_one lg))) = ''Term Life''
   \<and> monthlyPremium (recommendation (fst (calculateRecommendation f scenario_one lg))) = 1048
   \<and> Math_round (1350 * (5 / 10) * Math_pow (1045 / 1000) 10) = 1048"
proof -
  have m: "getIncomeMultiplier (age scenario_one) = 12"
    by (simp add: scenario_one_def getIncomeMultiplier_def BASE_MULTIPLIERS_midAge_def)
  have d: "1 + rat_of_int (dependents scenario_one) * DEPENDENT_MULTIPLIER = 15 / 10"
    by (simp add: scenario_one_def DEPENDENT_MULTIPLIER_def)
  have r: "RISK_ADJUSTMENTS (riskTolerance scenario_one) = 1"
    by (simp add: scenario_one_def)
  have i: "rat_of_int (income scenario_one) = 75000"
    by (simp add: scenario_one_def)
  have c: "coverage (recommendation (fst (calculateRecommendation f scenario_one lg))) = 1350000"
    by (simp only: coverage_result m d r i of_int_numeral coverage_scenario_one)
  have t: "determineTerm (age scenario_one) = 20" and t35: "determineTerm 35 = 20"
    by (simp_all add: scenario_one_def determineTerm_def)
  have y: "determineInsuranceType scenario_one = ''Term Life''"
    by (simp add: scenario_one_def determineInsuranceType_def)
  have a: "age scenario_one = 35" and k: "riskTolerance scenario_one = medium"
    by (simp_all add: scenario_one_def)
  have p: "monthlyPremium (recommendation (fst (calculateRecommendation f scenario_one lg))) = 1048"
    by (simp only: premium_result c t t35 y a k premium_scenario_one)
  show ?thesis
    by (simp only: factors_result term_result type_result m d r c t y p round_scenario_one)
qed

section \<open>Premium at the smallest positive income\<close>

text \<open>
  C7. The claim is that every valid profile with positive income gets a premium that is
  an integer above 0. At age 25, income 1, no dependents, medium risk tolerance the
  coverage is the cap 30 and the premium is \<open>round (0.03 \<times> 0.5 \<times> 1 \<times> 0.9) = 0\<close>.
\<close>

theorem premium_zero_at_income_one:
  "monthlyPremium (recommendation (fst (calculateRecommendation toLocaleString_en_US
       \<lparr> age = 25, income = 1, dependents = 0, riskTolerance = medium \<rparr> []))) = 0"
  by (simp add: premium_result coverage_result getIncomeMultiplier_def
      BASE_MULTIPLIERS_young_def DEPENDENT_MULTIPLIER_def determineTerm_def
      determineInsuranceType_def coverage_income_1 premium_coverage_30)

end
